theory Spec2Isabelle
  imports
    Complex_Main
    "HOL-Library.Log_Nat"
    "HOL-Library.Word"
    "HOL-Library.Signed_Division"
    "HOL-Library.Multiset"
    "HOL-Library.Sublist"
    "HOL-Library.Monad_Syntax"
    "HOL-Library.List_Lexorder"
    "HOL-Library.Char_ord"
begin

unbundle bit_operations_syntax

section \<open>Go's float64\<close>

text \<open>
  The emissions arithmetic of \<^verbatim>\<open>pkg/footprint/footprint.go\<close> and the unit scaling of
  \<^verbatim>\<open>formatGrams\<close> run on Go's \<^verbatim>\<open>float64\<close>, IEEE 754 binary64 with round to nearest,
  ties to even. A finite value is the rational number it denotes; the negative zero,
  the two infinities and NaN are values of their own. No fused multiply-add is modelled
  (the amd64 compiler emits none).
\<close>

datatype f64 = Num rat | NegZero | Inf bool | NaN

text \<open>Round half to even, to an integer.\<close>

definition round_even :: "rat \<Rightarrow> int" where
  "round_even x = (let f = \<lfloor>x\<rfloor>; d = x - of_int f in
      if d < 1/2 then f else if 1/2 < d then f + 1 else if even f then f else f + 1)"

text \<open>\<open>flog2 r\<close> is the binary exponent of a positive rational: \<open>2 ^ flog2 r \<le> r < 2 ^ (flog2 r + 1)\<close>.\<close>

definition flog2 :: "rat \<Rightarrow> int" where
  "flog2 r = (case quotient_of r of (p, q) \<Rightarrow>
     (let k = bitlen p - bitlen q in if 2 powi k \<le> r then k else k - 1))"

text \<open>
  The exponent of the unit in the last place: 53 significant bits, and the subnormal
  spacing \<open>2 ^ -1074\<close> below \<open>2 ^ -1022\<close>.
\<close>

definition ulp_exp :: "rat \<Rightarrow> int" where
  "ulp_exp r = max (flog2 \<bar>r\<bar>) (- 1022) - 52"

definition rnd64 :: "rat \<Rightarrow> rat" where
  "rnd64 r = (if r = 0 then 0 else of_int (round_even (r / 2 powi ulp_exp r)) * 2 powi ulp_exp r)"

text \<open>
  \<open>mk s r\<close> delivers the exact result \<open>r\<close> of an operation as a float64: rounded, a
  zero of sign \<open>s\<close> (\<open>True\<close> is negative) when it rounds to zero, and an infinity on
  overflow, that is when the rounded magnitude reaches \<open>2 ^ 1024\<close>.
\<close>

definition mk :: "bool \<Rightarrow> rat \<Rightarrow> f64" where
  "mk s r = (let q = rnd64 r in
     if q = 0 then (if s then NegZero else Num 0)
     else if 1024 \<le> flog2 \<bar>q\<bar> then Inf (r < 0)
     else Num q)"

fun fsign :: "f64 \<Rightarrow> bool" where
  "fsign (Num r) = (r < 0)"
| "fsign NegZero = True"
| "fsign (Inf s) = s"
| "fsign NaN = False"

fun fval :: "f64 \<Rightarrow> rat" where
  "fval (Num r) = r"
| "fval NegZero = 0"
| "fval (Inf s) = 0"
| "fval NaN = 0"

fun is_inf :: "f64 \<Rightarrow> bool" where
  "is_inf (Inf s) = True"
| "is_inf x = False"

fun is_zero :: "f64 \<Rightarrow> bool" where
  "is_zero (Num r) = (r = 0)"
| "is_zero NegZero = True"
| "is_zero x = False"

definition fmul :: "f64 \<Rightarrow> f64 \<Rightarrow> f64" where
  "fmul x y =
     (if x = NaN \<or> y = NaN then NaN
      else if is_inf x \<or> is_inf y then
        (if is_zero x \<or> is_zero y then NaN else Inf (fsign x \<noteq> fsign y))
      else mk (fsign x \<noteq> fsign y) (fval x * fval y))"

definition fdiv :: "f64 \<Rightarrow> f64 \<Rightarrow> f64" where
  "fdiv x y =
     (if x = NaN \<or> y = NaN then NaN
      else if is_inf x then (if is_inf y then NaN else Inf (fsign x \<noteq> fsign y))
      else if is_inf y then (if fsign x \<noteq> fsign y then NegZero else Num 0)
      else if is_zero y then (if is_zero x then NaN else Inf (fsign x \<noteq> fsign y))
      else mk (fsign x \<noteq> fsign y) (fval x / fval y))"

definition fadd :: "f64 \<Rightarrow> f64 \<Rightarrow> f64" where
  "fadd x y =
     (if x = NaN \<or> y = NaN then NaN
      else if is_inf x then (if is_inf y \<and> fsign x \<noteq> fsign y then NaN else x)
      else if is_inf y then y
      else (let r = fval x + fval y in
        if r = 0 then (if fsign x \<and> fsign y then NegZero else Num 0)
        else mk (r < 0) r))"

text \<open>The comparison \<^verbatim>\<open>x > y\<close>: false as soon as one side is NaN.\<close>

fun fgt :: "f64 \<Rightarrow> f64 \<Rightarrow> bool" where
  "fgt NaN y = False"
| "fgt x NaN = False"
| "fgt (Inf s) (Inf t) = (\<not> s \<and> t)"
| "fgt (Inf s) y = (\<not> s)"
| "fgt x (Inf t) = t"
| "fgt x y = (fval y < fval x)"

text \<open>The conversion \<^verbatim>\<open>float64(i)\<close> of an integer.\<close>

definition f64_of_int :: "int \<Rightarrow> f64" where
  "f64_of_int i = mk False (of_int i)"

section \<open>time.Duration\<close>

text \<open>
  A \<^verbatim>\<open>time.Duration\<close> is an \<^verbatim>\<open>int64\<close> count of nanoseconds. \<^verbatim>\<open>Duration.Hours\<close> is
  \<^verbatim>\<open>
  hour := d / Hour
  nsec := d % Hour
  return float64(hour) + float64(nsec)/(60*60*1e9)
  \<close>
  with Go's truncating division and remainder.
\<close>

type_synonym Duration = "64 word"

definition Hour :: int where
  "Hour = 3600000000000"

definition Hours :: "Duration \<Rightarrow> f64" where
  "Hours d =
     (let hour = sint d sdiv Hour;
          nsec = sint d smod Hour
      in fadd (f64_of_int hour) (fdiv (f64_of_int nsec) (Num 3600000000000)))"

section \<open>pkg/footprint: reference tables and the emissions formula\<close>

record EC2Instance =
  PowerAt50Percent :: f64
  ManufacturingEmissionsHourly :: f64

record AWSRegion =
  CarbonIntensity :: f64
  PUE :: f64

text \<open>
  The package keeps two maps, \<^verbatim>\<open>ec2instances\<close> and \<^verbatim>\<open>awsRegions\<close>, filled once by
  \<^verbatim>\<open>init\<close> from two embedded CSV files. The files are not part of the sources at hand, so
  the two maps are parameters of every function that reads them.
\<close>

record tables =
  ec2instances :: "string \<rightharpoonup> EC2Instance"
  awsRegions :: "string \<rightharpoonup> AWSRegion"

text \<open>
  The two errors of the package: \<^verbatim>\<open>fmt.Errorf("unknown instance type")\<close> and
  \<^verbatim>\<open>fmt.Errorf("unknown AWS region code")\<close>.
\<close>

datatype error = UnknownInstanceType | UnknownRegion

definition getPowerAt50Percent :: "tables \<Rightarrow> string \<Rightarrow> error + f64" where
  "getPowerAt50Percent T ec2InstanceType =
     (case ec2instances T ec2InstanceType of
        None \<Rightarrow> Inl UnknownInstanceType
      | Some val \<Rightarrow> Inr (PowerAt50Percent val))"

definition getManufacturingEmissions :: "tables \<Rightarrow> string \<Rightarrow> error + f64" where
  "getManufacturingEmissions T ec2InstanceType =
     (case ec2instances T ec2InstanceType of
        None \<Rightarrow> Inl UnknownInstanceType
      | Some val \<Rightarrow> Inr (ManufacturingEmissionsHourly val))"

definition getCarbonIntensity :: "tables \<Rightarrow> string \<Rightarrow> error + f64" where
  "getCarbonIntensity T regionCode =
     (case awsRegions T regionCode of
        None \<Rightarrow> Inl UnknownRegion
      | Some val \<Rightarrow> Inr (CarbonIntensity val))"

definition getPUE :: "tables \<Rightarrow> string \<Rightarrow> error + f64" where
  "getPUE T regionCode =
     (case awsRegions T regionCode of
        None \<Rightarrow> Inl UnknownRegion
      | Some val \<Rightarrow> Inr (PUE val))"

text \<open>\<^verbatim>\<open>AWS\<close> returns the footprint in gram CO2 equivalents, or the first lookup error.\<close>

definition AWS :: "tables \<Rightarrow> string \<Rightarrow> string \<Rightarrow> Duration \<Rightarrow> error + f64" where
  "AWS T regionCode instanceType duration =
     (case getPUE T regionCode of Inl err \<Rightarrow> Inl err | Inr pue \<Rightarrow>
      case getCarbonIntensity T regionCode of Inl err \<Rightarrow> Inl err | Inr ci \<Rightarrow>
      case getPowerAt50Percent T instanceType of Inl err \<Rightarrow> Inl err | Inr power50 \<Rightarrow>
      case getManufacturingEmissions T instanceType of Inl err \<Rightarrow> Inl err | Inr manufacturing \<Rightarrow>
        (let powerKiloWatt = fdiv power50 (Num 1000);
             hours = Hours duration
         in Inr (fmul (fadd (fmul (fmul powerKiloWatt pue) ci) manufacturing) hours)))"

section \<open>The table entries pinned by the package's tests\<close>

text \<open>
  \<^verbatim>\<open>strconv.ParseFloat\<close> and a Go float constant both denote the float64 nearest to the
  decimal numeral.
\<close>

definition lit :: "rat \<Rightarrow> f64" where
  "lit r = mk False r"

text \<open>
  The embedded CSV files are not at hand; the package's tests (\<^verbatim>\<open>Test_readEC2Instances\<close>,
  \<^verbatim>\<open>Test_readAWSRegions\<close>, \<^verbatim>\<open>TestCarbonIntensity\<close>, \<^verbatim>\<open>TestPUE\<close>, \<^verbatim>\<open>TestPowerAt50Percent\<close>,
  \<^verbatim>\<open>TestManufacturingEmissions\<close>) assert these entries of them. \<open>test_tables\<close> holds exactly
  the asserted entries and serves as a concrete input.
\<close>

definition test_tables :: tables where
  "test_tables = \<lparr>
     ec2instances = map_of [
       (''m5d.16xlarge'', \<lparr>PowerAt50Percent = lit (4519/10), ManufacturingEmissionsHourly = lit (388/10)\<rparr>),
       (''t2.micro'', \<lparr>PowerAt50Percent = lit (49/10), ManufacturingEmissionsHourly = lit (9/10)\<rparr>),
       (''a1.medium'', \<lparr>PowerAt50Percent = lit (32/10), ManufacturingEmissionsHourly = lit (18/10)\<rparr>),
       (''c3.8xlarge'', \<lparr>PowerAt50Percent = lit (1911/10), ManufacturingEmissionsHourly = lit (315/10)\<rparr>),
       (''m5.2xlarge'', \<lparr>PowerAt50Percent = lit (565/10), ManufacturingEmissionsHourly = lit (39/10)\<rparr>)],
     awsRegions = map_of [
       (''eu-central-1'', \<lparr>CarbonIntensity = lit 338, PUE = lit (12/10)\<rparr>),
       (''eu-west-1'', \<lparr>CarbonIntensity = lit 316, PUE = lit (12/10)\<rparr>),
       (''us-east-1'', \<lparr>CarbonIntensity = lit (415755/1000), PUE = lit (12/10)\<rparr>),
       (''ap-southeast-2'', \<lparr>CarbonIntensity = lit 790, PUE = lit (12/10)\<rparr>)]\<rparr>"

section \<open>time.Time and time.Parse\<close>

text \<open>
  A \<^verbatim>\<open>time.Time\<close> read by this program is an instant in UTC without monotonic clock
  reading: it is modelled as the number of nanoseconds since 0001-01-01T00:00:00Z, the
  zero value \<^verbatim>\<open>time.Time{}\<close> being 0.
\<close>

type_synonym Time = int

definition isDigit :: "char \<Rightarrow> bool" where
  "isDigit c = (48 \<le> (of_char c :: nat) \<and> (of_char c :: nat) \<le> 57)"

definition digitVal :: "char \<Rightarrow> int" where
  "digitVal c = int (of_char c) - 48"

text \<open>\<^verbatim>\<open>getnum\<close> of package time: one or two digits, exactly two when \<open>fixed\<close>.\<close>

fun getnum :: "string \<Rightarrow> bool \<Rightarrow> (int \<times> string) option" where
  "getnum [] fixed = None"
| "getnum [c] fixed = (if isDigit c \<and> \<not> fixed then Some (digitVal c, []) else None)"
| "getnum (c # d # s) fixed =
     (if \<not> isDigit c then None
      else if \<not> isDigit d then (if fixed then None else Some (digitVal c, d # s))
      else Some (digitVal c * 10 + digitVal d, s))"

text \<open>The four-digit year of the layout element \<^verbatim>\<open>2006\<close>.\<close>

fun getyear :: "string \<Rightarrow> (int \<times> string) option" where
  "getyear (a # b # c # d # s) =
     (if isDigit a \<and> isDigit b \<and> isDigit c \<and> isDigit d
      then Some (digitVal a * 1000 + digitVal b * 100 + digitVal c * 10 + digitVal d, s)
      else None)"
| "getyear s = None"

text \<open>A literal character of the layout.\<close>

fun skip :: "string \<Rightarrow> char \<Rightarrow> string option" where
  "skip [] c = None"
| "skip (x # s) c = (if x = c then Some s else None)"

text \<open>
  After the seconds, \<^verbatim>\<open>time.Parse\<close> accepts a fractional second that the layout does not
  mention: a period or comma followed by digits, of which the first nine count.
\<close>

definition getfraction :: "string \<Rightarrow> int \<times> string" where
  "getfraction s =
     (case s of
        c # d # rest \<Rightarrow>
          if (c = CHR ''.'' \<or> c = CHR '','') \<and> isDigit d then
            (let ds = takeWhile isDigit (d # rest);
                 used = take 9 ds
             in (foldl (\<lambda>a x. a * 10 + digitVal x) 0 used * 10 ^ (9 - length used),
                 drop (length ds) (d # rest)))
          else (0, s)
      | _ \<Rightarrow> (0, s))"

definition isLeap :: "int \<Rightarrow> bool" where
  "isLeap year = (year mod 4 = 0 \<and> (year mod 100 \<noteq> 0 \<or> year mod 400 = 0))"

definition daysIn :: "int \<Rightarrow> int \<Rightarrow> int" where
  "daysIn month year =
     (if month = 2 then (if isLeap year then 29 else 28)
      else if month = 4 \<or> month = 6 \<or> month = 9 \<or> month = 11 then 30
      else 31)"

definition daysBefore :: "int \<Rightarrow> int" where
  "daysBefore month = [0, 31, 59, 90, 120, 151, 181, 212, 243, 273, 304, 334] ! nat (month - 1)"

text \<open>\<^verbatim>\<open>time.Date\<close> in UTC, for a month in 1..12 and in-range day and clock fields.\<close>

definition Date :: "int \<Rightarrow> int \<Rightarrow> int \<Rightarrow> int \<Rightarrow> int \<Rightarrow> int \<Rightarrow> int \<Rightarrow> Time" where
  "Date year month day hour minute sec nsec =
     (let y = year - 1;
          days = 365 * y + y div 4 - y div 100 + y div 400
                 + daysBefore month + (if isLeap year \<and> 3 \<le> month then 1 else 0)
                 + (day - 1)
      in (days * 86400 + hour * 3600 + minute * 60 + sec) * 1000000000 + nsec)"

definition check :: "bool \<Rightarrow> unit option" where
  "check b = (if b then Some () else None)"

text \<open>
  \<^verbatim>\<open>time.Parse(dateTimeLayout, s)\<close> with \<^verbatim>\<open>dateTimeLayout = "2006-01-02T15:04:05Z"\<close>; \<open>None\<close>
  is the error return. The trailing \<^verbatim>\<open>Z\<close> of this layout is a literal character.
\<close>

definition time_Parse :: "string \<Rightarrow> Time option" where
  "time_Parse s = do {
     (year, s1) \<leftarrow> getyear s;
     s2 \<leftarrow> skip s1 CHR ''-'';
     (month, s3) \<leftarrow> getnum s2 True;
     _ \<leftarrow> check (0 < month \<and> month \<le> 12);
     s4 \<leftarrow> skip s3 CHR ''-'';
     (day, s5) \<leftarrow> getnum s4 True;
     s6 \<leftarrow> skip s5 CHR ''T'';
     (hour, s7) \<leftarrow> getnum s6 False;
     _ \<leftarrow> check (hour < 24);
     s8 \<leftarrow> skip s7 CHR '':'';
     (minute, s9) \<leftarrow> getnum s8 True;
     _ \<leftarrow> check (minute < 60);
     s10 \<leftarrow> skip s9 CHR '':'';
     (sec, s11) \<leftarrow> getnum s10 True;
     _ \<leftarrow> check (sec < 60);
     (nsec, s12) \<leftarrow> Some (getfraction s11);
     s13 \<leftarrow> skip s12 CHR ''Z'';
     _ \<leftarrow> check (s13 = []);
     _ \<leftarrow> check (1 \<le> day \<and> day \<le> daysIn month year);
     Some (Date year month day hour minute sec nsec)
   }"

text \<open>\<^verbatim>\<open>Time.Sub\<close> saturates at the least and the greatest \<^verbatim>\<open>Duration\<close>.\<close>

definition time_Sub :: "Time \<Rightarrow> Time \<Rightarrow> Duration" where
  "time_Sub t u =
     (let d = t - u in
      if d < - (2 ^ 63) then word_of_int (- (2 ^ 63))
      else if 2 ^ 63 - 1 < d then word_of_int (2 ^ 63 - 1)
      else word_of_int d)"


definition mustParseDate :: "string \<Rightarrow> Time" where
  "mustParseDate s = (case time_Parse s of Some dateTime \<Rightarrow> dateTime | None \<Rightarrow> 0)"

section \<open>cmd/analyse.go\<close>

abbreviation "headerBillPayerAccountID \<equiv> ''bill/PayerAccountId''"
abbreviation "headerIdentityTimeInterval \<equiv> ''identity/TimeInterval''"
abbreviation "headerLineItemLineItemType \<equiv> ''lineItem/LineItemType''"
abbreviation "headerLineItemOperation \<equiv> ''lineItem/Operation''"
abbreviation "headerLineItemProductCode \<equiv> ''lineItem/ProductCode''"
abbreviation "headerLineItemUsageAccountID \<equiv> ''lineItem/UsageAccountId''"
abbreviation "headerLineItemUsageEndDate \<equiv> ''lineItem/UsageEndDate''"
abbreviation "headerLineItemUsageStartDate \<equiv> ''lineItem/UsageStartDate''"
abbreviation "headerProductInstanceType \<equiv> ''product/instanceType''"
abbreviation "headerProductProductFamily \<equiv> ''product/productFamily''"
abbreviation "headerProductRegionCode \<equiv> ''product/regionCode''"

record ReportRow =
  PayerAccountID :: string
  UsageAccountID :: string
  Region :: string
  InstanceType :: string
  UsageStartTime :: Time
  UsageEndTime :: Time
  Duration :: Duration

record AggregateReportRow =
  Region :: string
  InstanceType :: string
  Duration :: Duration
  EmissionGrams :: f64

text \<open>An index expression \<^verbatim>\<open>xs[i]\<close> panics when \<open>i\<close> is out of range.\<close>

datatype panic = IndexOutOfRange

definition index :: "'a list \<Rightarrow> nat \<Rightarrow> panic + 'a" where
  "index xs i = (if i < length xs then Inr (xs ! i) else Inl IndexOutOfRange)"

text \<open>\<^verbatim>\<open>headers[name]\<close>: a Go map yields the zero value for a missing key.\<close>

definition hdr :: "(string \<rightharpoonup> nat) \<Rightarrow> string \<Rightarrow> nat" where
  "hdr headers name = (case headers name of Some i \<Rightarrow> i | None \<Rightarrow> 0)"

text \<open>\<^verbatim>\<open>strings.Split(s, "/")\<close> for a one-byte separator.\<close>

fun strings_Split :: "string \<Rightarrow> char \<Rightarrow> string list" where
  "strings_Split [] sep = [[]]"
| "strings_Split (c # s) sep =
     (if c = sep then [] # strings_Split s sep
      else (case strings_Split s sep of
              p # ps \<Rightarrow> (c # p) # ps
            | [] \<Rightarrow> [[c]]))"

definition readReportRow :: "(string \<rightharpoonup> nat) \<Rightarrow> string list \<Rightarrow> panic + ReportRow" where
  "readReportRow headers flds =
     (case index flds (hdr headers headerBillPayerAccountID) of Inl p \<Rightarrow> Inl p | Inr payer \<Rightarrow>
      case index flds (hdr headers headerLineItemUsageAccountID) of Inl p \<Rightarrow> Inl p | Inr usage \<Rightarrow>
      case index flds (hdr headers headerProductRegionCode) of Inl p \<Rightarrow> Inl p | Inr region \<Rightarrow>
      case index flds (hdr headers headerProductInstanceType) of Inl p \<Rightarrow> Inl p | Inr instanceType \<Rightarrow>
      case index flds (hdr headers headerLineItemUsageStartDate) of Inl p \<Rightarrow> Inl p | Inr startDate \<Rightarrow>
      case index flds (hdr headers headerLineItemUsageEndDate) of Inl p \<Rightarrow> Inl p | Inr endDate \<Rightarrow>
      case index flds (hdr headers headerIdentityTimeInterval) of Inl p \<Rightarrow> Inl p | Inr interval \<Rightarrow>
        (let parts = strings_Split interval CHR ''/'' in
         case index parts 0 of Inl p \<Rightarrow> Inl p | Inr part0 \<Rightarrow>
         case index parts 1 of Inl p \<Rightarrow> Inl p | Inr part1 \<Rightarrow>
           (let usageStartTime = mustParseDate part0;
                usageEndTime = mustParseDate part1
            in Inr \<lparr>PayerAccountID = payer,
                    UsageAccountID = usage,
                    ReportRow.Region = region,
                    ReportRow.InstanceType = instanceType,
                    UsageStartTime = usageStartTime,
                    UsageEndTime = usageEndTime,
                    ReportRow.Duration = time_Sub usageEndTime usageStartTime\<rparr>)))"


text \<open>The variables of \<^verbatim>\<open>analyse\<close> that the read loop updates, and the lines it prints.\<close>

datatype csv_error = ErrFieldCount | ErrSyntax string

record state =
  processedHeaders :: bool
  lineCount :: int
  headers :: "string \<rightharpoonup> nat"
  earliestDate :: Time
  latestDate :: Time
  aggregate :: "string \<rightharpoonup> AggregateReportRow"
  printedErrors :: "csv_error list"

definition initial :: state where
  "initial = \<lparr>
     processedHeaders = False,
     lineCount = 0,
     headers = Map.empty,
     earliestDate = mustParseDate ''2100-12-31T23:59:59Z'',
     latestDate = mustParseDate ''0000-00-00T00:00:00Z'',
     aggregate = Map.empty,
     printedErrors = []\<rparr>"

text \<open>\<^verbatim>\<open>for index, field := range csvRecord { headers[field] = index }\<close>\<close>

definition setHeaders :: "(string \<rightharpoonup> nat) \<Rightarrow> string list \<Rightarrow> (string \<rightharpoonup> nat)" where
  "setHeaders h csvRecord = fold (\<lambda>(index, field) m. m(field \<mapsto> index)) (enumerate 0 csvRecord) h"

text \<open>
  The four tests that filter out everything that is not EC2 instance usage; \<open>Inr False\<close>
  is \<^verbatim>\<open>continue\<close>.
\<close>

definition isEC2Usage :: "(string \<rightharpoonup> nat) \<Rightarrow> string list \<Rightarrow> panic + bool" where
  "isEC2Usage h csvRecord =
     (case index csvRecord (hdr h headerLineItemLineItemType) of Inl p \<Rightarrow> Inl p | Inr lineItemType \<Rightarrow>
      if lineItemType \<noteq> ''Usage'' then Inr False else
      case index csvRecord (hdr h headerLineItemProductCode) of Inl p \<Rightarrow> Inl p | Inr productCode \<Rightarrow>
      if productCode \<noteq> ''AmazonEC2'' then Inr False else
      case index csvRecord (hdr h headerProductProductFamily) of Inl p \<Rightarrow> Inl p | Inr productFamily \<Rightarrow>
      if productFamily \<noteq> ''Compute Instance'' then Inr False else
      case index csvRecord (hdr h headerLineItemOperation) of Inl p \<Rightarrow> Inl p | Inr operation \<Rightarrow>
      if \<not> prefix ''RunInstances'' operation then Inr False else Inr True)"

text \<open>\<^verbatim>\<open>fmt.Sprintf("%s_%s", r.Region, r.InstanceType)\<close>\<close>

definition aggregateKey :: "string \<Rightarrow> string \<Rightarrow> string" where
  "aggregateKey region instanceType = region @ ''_'' @ instanceType"

text \<open>The rest of the loop body, from the map update to the two date bounds.\<close>

definition accumulate :: "state \<Rightarrow> ReportRow \<Rightarrow> state" where
  "accumulate s r =
     (let key = aggregateKey (ReportRow.Region r) (ReportRow.InstanceType r);
          aggregate' =
            (case aggregate s key of
               Some val \<Rightarrow> (aggregate s)(key \<mapsto> val\<lparr>Duration := Duration val + ReportRow.Duration r\<rparr>)
             | None \<Rightarrow> (aggregate s)(key \<mapsto>
                 \<lparr>Region = ReportRow.Region r,
                  InstanceType = ReportRow.InstanceType r,
                  Duration = ReportRow.Duration r,
                  EmissionGrams = Num 0\<rparr>));
          earliestDate' = (if UsageStartTime r < earliestDate s then UsageStartTime r else earliestDate s);
          latestDate' = (if latestDate s < UsageEndTime r then UsageEndTime r else latestDate s)
      in s\<lparr>aggregate := aggregate', earliestDate := earliestDate', latestDate := latestDate'\<rparr>)"

text \<open>One pass through the loop body for a record the reader returned.\<close>

definition processRecord :: "state \<Rightarrow> string list \<Rightarrow> panic + state" where
  "processRecord s csvRecord =
     (let s1 = (if \<not> processedHeaders s
                then s\<lparr>headers := setHeaders (headers s) csvRecord, processedHeaders := True\<rparr>
                else s)
      in case isEC2Usage (headers s1) csvRecord of
           Inl p \<Rightarrow> Inl p
         | Inr False \<Rightarrow> Inr s1
         | Inr True \<Rightarrow>
             (let s2 = s1\<lparr>lineCount := lineCount s1 + 1\<rparr> in
              case readReportRow (headers s2) csvRecord of
                Inl p \<Rightarrow> Inl p
              | Inr r \<Rightarrow> Inr (accumulate s2 r)))"

text \<open>
  The input of the \<^verbatim>\<open>encoding/csv\<close> reader, line by line: the fields of a line, or a line
  that is not well-formed CSV. The reader skips an empty line, and with its default
  \<^verbatim>\<open>FieldsPerRecord = 0\<close> it takes the number of fields of the first record as the number
  every later record must have, returning \<^verbatim>\<open>ErrFieldCount\<close> otherwise.

  The loop: \<^verbatim>\<open>io.EOF\<close> ends it, any other error is printed and ends it too, and a record
  runs through the body. \<open>fieldsPerRecord\<close> is the reader's variable.
\<close>

datatype line = Fields "string list" | Malformed string

fun readLoop :: "nat \<Rightarrow> state \<Rightarrow> line list \<Rightarrow> panic + state" where
  "readLoop fieldsPerRecord s [] = Inr s"
| "readLoop fieldsPerRecord s (Malformed e # rest) =
     Inr (s\<lparr>printedErrors := printedErrors s @ [ErrSyntax e]\<rparr>)"
| "readLoop fieldsPerRecord s (Fields csvRecord # rest) =
     (if csvRecord = [] then readLoop fieldsPerRecord s rest
      else if 0 < fieldsPerRecord \<and> length csvRecord \<noteq> fieldsPerRecord
      then Inr (s\<lparr>printedErrors := printedErrors s @ [ErrFieldCount]\<rparr>)
      else (case processRecord s csvRecord of
              Inl p \<Rightarrow> Inl p
            | Inr s' \<Rightarrow> readLoop (length csvRecord) s' rest))"

text \<open>
  The second loop, \<^verbatim>\<open>for key := range aggregate\<close>. Go leaves the order of a map iteration
  unspecified; \<open>keys\<close> is the order this run takes. A bucket whose lookup fails is logged
  and left out.
\<close>

record emissions =
  aggregateReportRows :: "AggregateReportRow list"
  total :: f64
  logged :: "(string \<times> error) list"

definition emissionsStep ::
  "tables \<Rightarrow> (string \<rightharpoonup> AggregateReportRow) \<Rightarrow> emissions \<Rightarrow> string \<Rightarrow> emissions" where
  "emissionsStep T agg acc key =
     (case agg key of
        None \<Rightarrow> acc
      | Some a \<Rightarrow>
          (case AWS T (Region a) (InstanceType a) (Duration a) of
             Inl err \<Rightarrow> acc\<lparr>logged := logged acc @ [(key, err)]\<rparr>
           | Inr result \<Rightarrow>
               acc\<lparr>aggregateReportRows := aggregateReportRows acc @ [a\<lparr>EmissionGrams := result\<rparr>],
                   total := fadd (total acc) result\<rparr>))"

definition computeEmissions ::
  "tables \<Rightarrow> (string \<rightharpoonup> AggregateReportRow) \<Rightarrow> string list \<Rightarrow> emissions" where
  "computeEmissions T agg keys =
     foldl (emissionsStep T agg) \<lparr>aggregateReportRows = [], total = Num 0, logged = []\<rparr> keys"

text \<open>The two comparison functions handed to \<^verbatim>\<open>sort.Slice\<close>; Go compares strings bytewise.\<close>

definition lessInstanceType :: "AggregateReportRow \<Rightarrow> AggregateReportRow \<Rightarrow> bool" where
  "lessInstanceType a b = (InstanceType a < InstanceType b)"

definition lessRegion :: "AggregateReportRow \<Rightarrow> AggregateReportRow \<Rightarrow> bool" where
  "lessRegion a b = (Region a < Region b)"


section \<open>Notions for stating the properties of the read loop\<close>

text \<open>
  The records the reader hands to the loop body before the stream ends or the first
  error, the error that ends the loop if there is one, and the loop body run over a list
  of records.
\<close>

fun records :: "nat \<Rightarrow> line list \<Rightarrow> string list list" where
  "records fieldsPerRecord [] = []"
| "records fieldsPerRecord (Malformed e # rest) = []"
| "records fieldsPerRecord (Fields csvRecord # rest) =
     (if csvRecord = [] then records fieldsPerRecord rest
      else if 0 < fieldsPerRecord \<and> length csvRecord \<noteq> fieldsPerRecord then []
      else csvRecord # records (length csvRecord) rest)"

fun readError :: "nat \<Rightarrow> line list \<Rightarrow> csv_error option" where
  "readError fieldsPerRecord [] = None"
| "readError fieldsPerRecord (Malformed e # rest) = Some (ErrSyntax e)"
| "readError fieldsPerRecord (Fields csvRecord # rest) =
     (if csvRecord = [] then readError fieldsPerRecord rest
      else if 0 < fieldsPerRecord \<and> length csvRecord \<noteq> fieldsPerRecord then Some ErrFieldCount
      else readError (length csvRecord) rest)"

fun processAll :: "state \<Rightarrow> string list list \<Rightarrow> panic + state" where
  "processAll s [] = Inr s"
| "processAll s (csvRecord # rest) =
     (case processRecord s csvRecord of Inl p \<Rightarrow> Inl p | Inr s' \<Rightarrow> processAll s' rest)"

text \<open>
  The row qualification filter as the specification words it: line-item type equals
  \<^verbatim>\<open>Usage\<close>, product code equals \<^verbatim>\<open>AmazonEC2\<close>, product family equals \<^verbatim>\<open>Compute Instance\<close>,
  and the operation starts with \<^verbatim>\<open>RunInstances\<close>.
\<close>

definition qualifies :: "(string \<rightharpoonup> nat) \<Rightarrow> string list \<Rightarrow> bool" where
  "qualifies h row \<longleftrightarrow>
     index row (hdr h headerLineItemLineItemType) = Inr ''Usage'' \<and>
     index row (hdr h headerLineItemProductCode) = Inr ''AmazonEC2'' \<and>
     index row (hdr h headerProductProductFamily) = Inr ''Compute Instance'' \<and>
     (case index row (hdr h headerLineItemOperation) of
        Inr operation \<Rightarrow> prefix ''RunInstances'' operation
      | Inl p \<Rightarrow> False)"

text \<open>The key of a usage record, and the usage records of the qualifying rows, in order.\<close>

definition keyOf :: "ReportRow \<Rightarrow> string" where
  "keyOf r = aggregateKey (ReportRow.Region r) (ReportRow.InstanceType r)"

definition usageRecords :: "(string \<rightharpoonup> nat) \<Rightarrow> string list list \<Rightarrow> ReportRow list" where
  "usageRecords h rows =
     concat (map (\<lambda>row. case readReportRow h row of Inr r \<Rightarrow> [r] | Inl p \<Rightarrow> [])
                 (filter (qualifies h) rows))"

text \<open>The bucket that the records with key \<open>k\<close> build, the first of them naming it.\<close>

definition bucket :: "ReportRow list \<Rightarrow> string \<Rightarrow> AggregateReportRow option" where
  "bucket rs k =
     (case filter (\<lambda>r. keyOf r = k) rs of
        [] \<Rightarrow> None
      | m # ms \<Rightarrow>
          Some \<lparr>Region = ReportRow.Region m,
                InstanceType = ReportRow.InstanceType m,
                Duration = sum_list (map ReportRow.Duration (m # ms)),
                EmissionGrams = Num 0\<rparr>)"

text \<open>A small report: a header and four rows, of which the first and the last qualify.\<close>

definition example_header :: "string list" where
  "example_header =
     [''lineItem/LineItemType'', ''lineItem/ProductCode'', ''product/productFamily'',
      ''lineItem/Operation'', ''product/regionCode'', ''product/instanceType'',
      ''identity/TimeInterval'']"

definition usage_row :: "string \<Rightarrow> string \<Rightarrow> string \<Rightarrow> string list" where
  "usage_row region instanceType interval =
     [''Usage'', ''AmazonEC2'', ''Compute Instance'', ''RunInstances'', region, instanceType, interval]"

definition example_rows :: "string list list" where
  "example_rows =
     [usage_row ''eu-west-1'' ''t2.micro'' ''2022-08-01T00:00:00Z/2022-08-01T01:00:00Z'',
      [''Tax'', ''AmazonEC2'', ''Compute Instance'', ''RunInstances'', ''eu-west-1'', ''t2.micro'',
       ''2022-08-01T00:00:00Z/2022-08-01T01:00:00Z''],
      [''Usage'', ''AmazonEC2'', ''Compute Instance'', ''CreateVolume'', ''eu-west-1'', ''t2.micro'',
       ''2022-08-01T00:00:00Z/2022-08-01T01:00:00Z''],
      usage_row ''eu-west-1'' ''t2.micro'' ''2022-08-01T01:00:00Z/2022-08-01T02:00:00Z'']"

definition example_lines :: "line list" where
  "example_lines = map Fields (example_header # example_rows)"


text \<open>Two qualifying rows with distinct (region, instance type) pairs and the same key.\<close>

definition collide_rows :: "string list list" where
  "collide_rows =
     [usage_row ''a_b'' ''c'' ''2022-08-01T00:00:00Z/2022-08-01T01:00:00Z'',
      usage_row ''a'' ''b_c'' ''2022-08-01T00:00:00Z/2022-08-01T01:00:00Z'']"

definition collide_lines :: "line list" where
  "collide_lines = map Fields (example_header # collide_rows)"

section \<open>The emissions formula\<close>

text \<open>
  C1. For a region and an instance type present in the tables, and every duration,
  \<open>AWS\<close> succeeds and returns \<open>((power / 1000.0) * PUE * carbonIntensity + manufacturing) * hours\<close>,
  each operation a float64 operation and \<open>hours\<close> the value of \<^verbatim>\<open>Duration.Hours\<close>. For
  \<^verbatim>\<open>eu-west-1\<close> and \<^verbatim>\<open>t2.micro\<close> (4.9 W, PUE 1.2, 316 g/kWh, 0.9 g/h) one hour yields the
  float64 written \<^verbatim>\<open>2.75808\<close>, and the duration 0 yields 0.
\<close>

theorem C1_AWS_formula:
  "(ec2instances T t = Some i \<and> awsRegions T r = Some g \<longrightarrow>
      AWS T r t d =
        Inr (fmul (fadd (fmul (fmul (fdiv (PowerAt50Percent i) (Num 1000)) (PUE g))
                              (CarbonIntensity g))
                        (ManufacturingEmissionsHourly i))
                  (Hours d))) \<and>
   ec2instances test_tables ''t2.micro'' =
     Some \<lparr>PowerAt50Percent = lit (49/10), ManufacturingEmissionsHourly = lit (9/10)\<rparr> \<and>
   awsRegions test_tables ''eu-west-1'' =
     Some \<lparr>CarbonIntensity = lit 316, PUE = lit (12/10)\<rparr> \<and>
   Hours 3600000000000 = Num 1 \<and>
   AWS test_tables ''eu-west-1'' ''t2.micro'' 3600000000000 = Inr (lit (275808/100000)) \<and>
   AWS test_tables ''eu-west-1'' ''t2.micro'' 0 = Inr (Num 0)"
proof -
  have formula: "AWS T r t d =
        Inr (fmul (fadd (fmul (fmul (fdiv (PowerAt50Percent i) (Num 1000)) (PUE g))
                              (CarbonIntensity g))
                        (ManufacturingEmissionsHourly i))
                  (Hours d))"
    if "ec2instances T t = Some i" "awsRegions T r = Some g" for T t r i g d
    using that
    by (simp add: AWS_def getPUE_def getCarbonIntensity_def getPowerAt50Percent_def
        getManufacturingEmissions_def)
  have inst: "ec2instances test_tables ''t2.micro'' =
     Some \<lparr>PowerAt50Percent = lit (49/10), ManufacturingEmissionsHourly = lit (9/10)\<rparr>"
    by (simp add: test_tables_def)
  have reg: "awsRegions test_tables ''eu-west-1'' =
     Some \<lparr>CarbonIntensity = lit 316, PUE = lit (12/10)\<rparr>"
    by (simp add: test_tables_def)
  have hour: "Hours 3600000000000 = Num 1"
    by code_simp
  have one: "fmul (fadd (fmul (fmul (fdiv (lit (49/10)) (Num 1000)) (lit (12/10))) (lit 316))
                        (lit (9/10)))
                  (Hours 3600000000000) = lit (275808/100000)"
    by code_simp
  have zero: "fmul (fadd (fmul (fmul (fdiv (lit (49/10)) (Num 1000)) (lit (12/10))) (lit 316))
                        (lit (9/10)))
                  (Hours 0) = Num 0"
    by code_simp
  show ?thesis
    using formula [OF inst reg, of 3600000000000] formula [OF inst reg, of 0] formula
      inst reg hour one zero
    by simp
qed

theorem C1_AWS_formula_witness:
  "ec2instances test_tables ''m5.2xlarge'' =
     Some \<lparr>PowerAt50Percent = lit (565/10), ManufacturingEmissionsHourly = lit (39/10)\<rparr> \<and>
   awsRegions test_tables ''eu-central-1'' =
     Some \<lparr>CarbonIntensity = lit 338, PUE = lit (12/10)\<rparr> \<and>
   AWS test_tables ''eu-central-1'' ''m5.2xlarge'' 5400000000000 =
     Inr (fmul (fadd (fmul (fmul (fdiv (lit (565/10)) (Num 1000)) (lit (12/10))) (lit 338))
                     (lit (39/10)))
               (Hours 5400000000000))"
proof -
  have inst: "ec2instances test_tables ''m5.2xlarge'' =
     Some \<lparr>PowerAt50Percent = lit (565/10), ManufacturingEmissionsHourly = lit (39/10)\<rparr>"
    by (simp add: test_tables_def)
  have reg: "awsRegions test_tables ''eu-central-1'' =
     Some \<lparr>CarbonIntensity = lit 338, PUE = lit (12/10)\<rparr>"
    by (simp add: test_tables_def)
  show ?thesis
    using C1_AWS_formula [of test_tables "''m5.2xlarge''" _ "''eu-central-1''" _ 5400000000000]
      inst reg
    by simp
qed

section \<open>Unknown keys\<close>

text \<open>
  C5. For a string that is no key of the instance table, both instance lookups fail with
  the unknown-instance-type error; for a string that is no key of the region table, both
  region lookups fail with the unknown-region error; and in each of these cases the
  top-level call \<open>AWS\<close> returns an error, never a number.
\<close>

theorem C5_unknown_keys_fail:
  "(ec2instances T t = None \<longrightarrow>
      getPowerAt50Percent T t = Inl UnknownInstanceType \<and>
      getManufacturingEmissions T t = Inl UnknownInstanceType \<and>
      (\<forall>r d. \<exists>e. AWS T r t d = Inl e)) \<and>
   (awsRegions T r' = None \<longrightarrow>
      getCarbonIntensity T r' = Inl UnknownRegion \<and>
      getPUE T r' = Inl UnknownRegion \<and>
      (\<forall>t' d. AWS T r' t' d = Inl UnknownRegion))"
  by (auto simp: getPowerAt50Percent_def getManufacturingEmissions_def
      getCarbonIntensity_def getPUE_def AWS_def split: option.splits)

theorem C5_unknown_keys_fail_witness:
  "ec2instances test_tables ''unknown'' = None \<and>
   awsRegions test_tables ''unknown'' = None \<and>
   getPowerAt50Percent test_tables ''unknown'' = Inl UnknownInstanceType \<and>
   getManufacturingEmissions test_tables ''unknown'' = Inl UnknownInstanceType \<and>
   (\<exists>e. AWS test_tables ''eu-west-1'' ''unknown'' 3600000000000 = Inl e) \<and>
   getCarbonIntensity test_tables ''unknown'' = Inl UnknownRegion \<and>
   getPUE test_tables ''unknown'' = Inl UnknownRegion \<and>
   AWS test_tables ''unknown'' ''t2.micro'' 3600000000000 = Inl UnknownRegion"
proof -
  have i: "ec2instances test_tables ''unknown'' = None"
    by (simp add: test_tables_def)
  have r: "awsRegions test_tables ''unknown'' = None"
    by (simp add: test_tables_def)
  show ?thesis
    using C5_unknown_keys_fail [of test_tables "''unknown''" "''unknown''"] i r by blast
qed

section \<open>The read loop\<close>

lemma readLoop_processAll:
  "readLoop fpr s lines =
     (case processAll s (records fpr lines) of
        Inl p \<Rightarrow> Inl p
      | Inr s' \<Rightarrow> Inr (case readError fpr lines of
                        None \<Rightarrow> s'
                      | Some e \<Rightarrow> s'\<lparr>printedErrors := printedErrors s' @ [e]\<rparr>))"
proof (induction lines arbitrary: fpr s)
  case Nil
  show ?case by simp
next
  case (Cons l lines)
  show ?case
  proof (cases l)
    case (Fields csvRecord)
    then show ?thesis
      using Cons.IH by (simp split: sum.splits)
  next
    case (Malformed e)
    then show ?thesis by simp
  qed
qed

lemma isEC2Usage_True_iff: "isEC2Usage h row = Inr True \<longleftrightarrow> qualifies h row"
  by (auto simp: isEC2Usage_def qualifies_def split: sum.splits)

lemma isEC2Usage_False:
  assumes "\<not> qualifies h row" "\<And>name. hdr h name < length row"
  shows "isEC2Usage h row = Inr False"
  using assms(1) assms(2)
  by (auto simp: isEC2Usage_def qualifies_def index_def split: sum.splits)

lemma records_length:
  "row \<in> set (records fpr lines) \<Longrightarrow> row \<noteq> [] \<and> (0 < fpr \<longrightarrow> length row = fpr)"
proof (induction fpr lines rule: records.induct)
  case (1 fpr)
  then show ?case by simp
next
  case (2 fpr e rest)
  then show ?case by simp
next
  case (3 fpr csvRecord rest)
  then show ?case by (auto split: if_splits)
qed

lemma records_header:
  assumes "records 0 lines = header # rows"
  shows "header \<noteq> [] \<and> (\<forall>row \<in> set rows. length row = length header)"
  using assms
proof (induction lines)
  case Nil
  then show ?case by simp
next
  case (Cons l lines)
  show ?case
  proof (cases l)
    case (Fields csvRecord)
    show ?thesis
    proof (cases "csvRecord = []")
      case True
      with Fields Cons show ?thesis by simp
    next
      case False
      with Fields Cons.prems have h: "header = csvRecord" and r: "rows = records (length csvRecord) lines"
        by auto
      from False h r records_length [of _ "length csvRecord" lines] show ?thesis
        by auto
    qed
  next
    case (Malformed e)
    with Cons show ?thesis by simp
  qed
qed

lemma fold_headers_Cons:
  "fold (\<lambda>(index, field) m. m(field \<mapsto> index)) (enumerate n (x # xs)) h =
   fold (\<lambda>(index, field) m. m(field \<mapsto> index)) (enumerate (Suc n) xs) (h(x \<mapsto> n))"
  by simp

lemma fold_headers:
  "fold (\<lambda>(index, field) m. m(field \<mapsto> index)) (enumerate n xs) h name = Some i \<Longrightarrow>
     (n \<le> i \<and> i < n + length xs \<and> xs ! (i - n) = name) \<or> (h name = Some i \<and> name \<notin> set xs)"
proof (induction xs arbitrary: n h)
  case Nil
  then show ?case by simp
next
  case (Cons x xs)
  from Cons.prems
  have "fold (\<lambda>(index, field) m. m(field \<mapsto> index)) (enumerate (Suc n) xs) (h(x \<mapsto> n)) name = Some i"
    by (simp only: fold_headers_Cons)
  from Cons.IH [OF this] show ?case
    by (auto simp: nth_Cons' split: if_splits)
qed

lemma fold_headers_dom:
  "dom (fold (\<lambda>(index, field) m. m(field \<mapsto> index)) (enumerate n xs) h) = dom h \<union> set xs"
proof (induction xs arbitrary: n h)
  case Nil
  show ?case by simp
next
  case (Cons x xs)
  show ?case
    unfolding fold_headers_Cons Cons.IH by auto
qed

lemma fold_headers_None:
  "fold (\<lambda>(index, field) m. m(field \<mapsto> index)) (enumerate n xs) h name = None \<Longrightarrow>
     name \<notin> set xs"
  using fold_headers_dom [of n xs h] by (metis UnI2 domIff)

lemma setHeaders_Some:
  "setHeaders Map.empty xs name = Some i \<Longrightarrow> i < length xs \<and> xs ! i = name"
  using fold_headers [of 0 xs Map.empty name i] by (simp add: setHeaders_def)

lemma setHeaders_None: "setHeaders Map.empty xs name = None \<Longrightarrow> name \<notin> set xs"
  using fold_headers_None [of 0 xs Map.empty name] by (simp add: setHeaders_def)

lemma hdr_setHeaders: "header \<noteq> [] \<Longrightarrow> hdr (setHeaders Map.empty header) name < length header"
  using setHeaders_Some [of header name]
  by (cases "setHeaders Map.empty header name") (auto simp: hdr_def)

lemma header_not_qualifies: "\<not> qualifies (setHeaders Map.empty header) header"
proof
  assume q: "qualifies (setHeaders Map.empty header) header"
  let ?H = "setHeaders Map.empty header"
  from q have a: "index header (hdr ?H headerLineItemLineItemType) = Inr ''Usage''"
    and b: "index header (hdr ?H headerLineItemProductCode) = Inr ''AmazonEC2''"
    by (simp_all add: qualifies_def)
  have a': "?H headerLineItemLineItemType = None"
  proof (cases "?H headerLineItemLineItemType")
    case (Some i)
    with setHeaders_Some [OF Some] a show ?thesis
      by (simp add: hdr_def index_def split: if_splits)
  qed simp
  have b': "?H headerLineItemProductCode = None"
  proof (cases "?H headerLineItemProductCode")
    case (Some i)
    with setHeaders_Some [OF Some] b show ?thesis
      by (simp add: hdr_def index_def split: if_splits)
  qed simp
  from a a' b b' show False
    by (simp add: hdr_def index_def split: if_splits)
qed


lemma accumulate_lineCount:
  "accumulate (s\<lparr>lineCount := c\<rparr>) r = (accumulate s r)\<lparr>lineCount := c\<rparr>"
  by (simp add: accumulate_def Let_def split: option.splits)

lemma accumulate_fields [simp]:
  "lineCount (accumulate s r) = lineCount s"
  "headers (accumulate s r) = headers s"
  "processedHeaders (accumulate s r) = processedHeaders s"
  "printedErrors (accumulate s r) = printedErrors s"
  by (simp_all add: accumulate_def Let_def)

lemma foldl_accumulate_lineCount:
  "foldl accumulate (s\<lparr>lineCount := c\<rparr>) rs = (foldl accumulate s rs)\<lparr>lineCount := c\<rparr>"
  by (induction rs arbitrary: s) (simp_all add: accumulate_lineCount)

lemma foldl_accumulate_fields [simp]:
  "lineCount (foldl accumulate s rs) = lineCount s"
  "headers (foldl accumulate s rs) = headers s"
  "processedHeaders (foldl accumulate s rs) = processedHeaders s"
  "printedErrors (foldl accumulate s rs) = printedErrors s"
  by (induction rs arbitrary: s) simp_all

lemma processRecord_after_header:
  assumes "processedHeaders s" "\<And>name. hdr (headers s) name < length row"
  shows "processRecord s row =
     (if qualifies (headers s) row
      then (case readReportRow (headers s) row of
              Inl p \<Rightarrow> Inl p
            | Inr r \<Rightarrow> Inr (accumulate (s\<lparr>lineCount := lineCount s + 1\<rparr>) r))
      else Inr s)"
proof (cases "qualifies (headers s) row")
  case True
  then have "isEC2Usage (headers s) row = Inr True"
    by (simp add: isEC2Usage_True_iff)
  with True assms(1) show ?thesis
    by (simp add: processRecord_def)
next
  case False
  then have "isEC2Usage (headers s) row = Inr False"
    using assms(2) by (rule isEC2Usage_False)
  with False assms(1) show ?thesis
    by (simp add: processRecord_def)
qed

lemma processAll_after_header:
  assumes "processAll s rows = Inr s'" "processedHeaders s"
    "\<And>row name. row \<in> set rows \<Longrightarrow> hdr (headers s) name < length row"
  shows "s' = (foldl accumulate s (usageRecords (headers s) rows))
               \<lparr>lineCount := lineCount s + int (length (filter (qualifies (headers s)) rows))\<rparr> \<and>
         length (usageRecords (headers s) rows) = length (filter (qualifies (headers s)) rows)"
  using assms
proof (induction rows arbitrary: s)
  case Nil
  then show ?case by (simp add: usageRecords_def)
next
  case (Cons row rows)
  have pr: "processRecord s row =
     (if qualifies (headers s) row
      then (case readReportRow (headers s) row of
              Inl p \<Rightarrow> Inl p
            | Inr r \<Rightarrow> Inr (accumulate (s\<lparr>lineCount := lineCount s + 1\<rparr>) r))
      else Inr s)"
    using Cons.prems(2,3) by (intro processRecord_after_header) simp_all
  show ?case
  proof (cases "qualifies (headers s) row")
    case False
    with pr Cons.prems have "processAll s rows = Inr s'"
      by simp
    from Cons.IH [OF this Cons.prems(2)] Cons.prems(3) False show ?thesis
      by (simp add: usageRecords_def)
  next
    case True
    with pr Cons.prems(1) obtain r where r: "readReportRow (headers s) row = Inr r"
      by (cases "readReportRow (headers s) row") auto
    let ?s1 = "accumulate (s\<lparr>lineCount := lineCount s + 1\<rparr>) r"
    from pr True r Cons.prems(1) have 1: "processAll ?s1 rows = Inr s'"
      by simp
    have 2: "processedHeaders ?s1"
      using Cons.prems(2) by simp
    have 3: "headers ?s1 = headers s"
      by simp
    from Cons.IH [OF 1 2] Cons.prems(3) 3
    have "s' = (foldl accumulate ?s1 (usageRecords (headers s) rows))
               \<lparr>lineCount := lineCount ?s1 + int (length (filter (qualifies (headers s)) rows))\<rparr> \<and>
         length (usageRecords (headers s) rows) = length (filter (qualifies (headers s)) rows)"
      by simp
    with True r show ?thesis
      by (simp add: usageRecords_def accumulate_lineCount foldl_accumulate_lineCount)
  qed
qed


lemma aggregate_accumulate:
  "aggregate (accumulate s r) k =
     (if k = keyOf r
      then Some (case aggregate s k of
                   Some val \<Rightarrow> val\<lparr>Duration := Duration val + ReportRow.Duration r\<rparr>
                 | None \<Rightarrow> \<lparr>Region = ReportRow.Region r,
                             InstanceType = ReportRow.InstanceType r,
                             Duration = ReportRow.Duration r,
                             EmissionGrams = Num 0\<rparr>)
      else aggregate s k)"
  by (simp add: accumulate_def keyOf_def Let_def split: option.splits)

lemma aggregate_foldl_Some:
  "aggregate s k = Some a \<Longrightarrow>
   aggregate (foldl accumulate s rs) k =
     Some (a\<lparr>Duration := Duration a
              + sum_list (map ReportRow.Duration (filter (\<lambda>r. keyOf r = k) rs))\<rparr>)"
proof (induction rs arbitrary: s a)
  case Nil
  then show ?case by simp
next
  case (Cons r rs)
  show ?case
  proof (cases "keyOf r = k")
    case True
    with Cons.prems
    have "aggregate (accumulate s r) k = Some (a\<lparr>Duration := Duration a + ReportRow.Duration r\<rparr>)"
      by (simp add: aggregate_accumulate)
    from Cons.IH [OF this] True show ?thesis
      by (simp add: add.assoc)
  next
    case False
    with Cons.prems have "aggregate (accumulate s r) k = Some a"
      by (simp add: aggregate_accumulate)
    from Cons.IH [OF this] False show ?thesis
      by simp
  qed
qed

lemma aggregate_foldl_None:
  "aggregate s k = None \<Longrightarrow> aggregate (foldl accumulate s rs) k = bucket rs k"
proof (induction rs arbitrary: s)
  case Nil
  then show ?case by (simp add: bucket_def)
next
  case (Cons r rs)
  show ?case
  proof (cases "keyOf r = k")
    case True
    with Cons.prems
    have "aggregate (accumulate s r) k =
      Some \<lparr>Region = ReportRow.Region r, InstanceType = ReportRow.InstanceType r,
            Duration = ReportRow.Duration r, EmissionGrams = Num 0\<rparr>"
      by (simp add: aggregate_accumulate)
    from aggregate_foldl_Some [OF this, of rs] True show ?thesis
      by (simp add: bucket_def)
  next
    case False
    with Cons.prems have "aggregate (accumulate s r) k = None"
      by (simp add: aggregate_accumulate)
    from Cons.IH [OF this] False show ?thesis
      by (simp add: bucket_def)
  qed
qed

lemma initial_fields [simp]:
  "processedHeaders initial = False"
  "lineCount initial = 0"
  "headers initial = Map.empty"
  "aggregate initial = Map.empty"
  "printedErrors initial = []"
  by (simp_all add: initial_def)

text \<open>The state after the whole loop, for a stream whose first record is \<open>header\<close>.\<close>

lemma readLoop_header_rows:
  assumes recs: "records 0 lines = header # rows"
    and run: "readLoop 0 initial lines = Inr s"
  shows "\<exists>s0. s0 = initial\<lparr>headers := setHeaders Map.empty header, processedHeaders := True\<rparr> \<and>
     processAll s0 rows = Inr (s\<lparr>printedErrors := []\<rparr>) \<and>
     (\<forall>row \<in> set rows. \<forall>name. hdr (headers s0) name < length row)"
proof -
  let ?H = "setHeaders Map.empty header"
  let ?s0 = "initial\<lparr>headers := ?H, processedHeaders := True\<rparr>"
  from records_header [OF recs] have ne: "header \<noteq> []"
    and len: "\<forall>row \<in> set rows. length row = length header"
    by simp_all
  have inrange: "hdr ?H name < length header" for name
    using ne by (rule hdr_setHeaders)
  have "isEC2Usage ?H header = Inr False"
    using header_not_qualifies inrange by (intro isEC2Usage_False)
  then have hd: "processRecord initial header = Inr ?s0"
    by (simp add: processRecord_def)
  from run recs hd obtain s1 where s1: "processAll ?s0 rows = Inr s1"
    and s: "s = (case readError 0 lines of None \<Rightarrow> s1
                 | Some e \<Rightarrow> s1\<lparr>printedErrors := printedErrors s1 @ [e]\<rparr>)"
    by (auto simp: readLoop_processAll split: sum.splits)
  have rng: "\<forall>row \<in> set rows. \<forall>name. hdr (headers ?s0) name < length row"
    using len inrange by simp
  from processAll_after_header [OF s1] rng
  have "printedErrors s1 = []"
    by simp
  with s have "s1 = s\<lparr>printedErrors := []\<rparr>"
    by (cases "readError 0 lines") simp_all
  with s1 rng show ?thesis
    by simp
qed


lemma readLoop_state:
  assumes "records 0 lines = header # rows" and "readLoop 0 initial lines = Inr s"
  shows "s\<lparr>printedErrors := []\<rparr> =
      (foldl accumulate (initial\<lparr>headers := setHeaders Map.empty header, processedHeaders := True\<rparr>)
         (usageRecords (setHeaders Map.empty header) rows))
        \<lparr>lineCount := int (length (filter (qualifies (setHeaders Map.empty header)) rows))\<rparr>"
    and "length (usageRecords (setHeaders Map.empty header) rows) =
      length (filter (qualifies (setHeaders Map.empty header)) rows)"
    and "\<forall>row \<in> set rows. \<forall>name. hdr (setHeaders Map.empty header) name < length row"
proof -
  let ?H = "setHeaders Map.empty header"
  let ?s0 = "initial\<lparr>headers := ?H, processedHeaders := True\<rparr>"
  from readLoop_header_rows [OF assms]
  have all: "processAll ?s0 rows = Inr (s\<lparr>printedErrors := []\<rparr>)"
    and rng: "\<forall>row \<in> set rows. \<forall>name. hdr ?H name < length row"
    by simp_all
  from processAll_after_header [OF all] rng
  show "s\<lparr>printedErrors := []\<rparr> =
      (foldl accumulate ?s0 (usageRecords ?H rows))
        \<lparr>lineCount := int (length (filter (qualifies ?H) rows))\<rparr>"
    and "length (usageRecords ?H rows) = length (filter (qualifies ?H) rows)"
    by simp_all
  from rng show "\<forall>row \<in> set rows. \<forall>name. hdr ?H name < length row" .
qed

lemma readLoop_lineCount:
  assumes "records 0 lines = header # rows" and "readLoop 0 initial lines = Inr s"
  shows "lineCount s = int (length (filter (qualifies (setHeaders Map.empty header)) rows))"
proof -
  have "lineCount s = lineCount (s\<lparr>printedErrors := []\<rparr>)"
    by simp
  also have "\<dots> = int (length (filter (qualifies (setHeaders Map.empty header)) rows))"
    by (simp only: readLoop_state(1) [OF assms]) simp
  finally show ?thesis .
qed

lemma readLoop_aggregate:
  assumes "records 0 lines = header # rows" and "readLoop 0 initial lines = Inr s"
  shows "aggregate s k = bucket (usageRecords (setHeaders Map.empty header) rows) k"
proof -
  have "aggregate s k = aggregate (s\<lparr>printedErrors := []\<rparr>) k"
    by simp
  also have "\<dots> = aggregate (foldl accumulate
      (initial\<lparr>headers := setHeaders Map.empty header, processedHeaders := True\<rparr>)
      (usageRecords (setHeaders Map.empty header) rows)) k"
    by (simp only: readLoop_state(1) [OF assms]) simp
  also have "\<dots> = bucket (usageRecords (setHeaders Map.empty header) rows) k"
    by (rule aggregate_foldl_None) simp
  finally show ?thesis .
qed

section \<open>Row qualification\<close>

lemma ex_records: "records 0 example_lines = example_header # example_rows"
  by (simp add: example_lines_def example_header_def example_rows_def usage_row_def)

lemma ex_run: "case readLoop 0 initial example_lines of Inl p \<Rightarrow> False | Inr s \<Rightarrow> True"
  by code_simp

lemma ex_count: "length (filter (qualifies (setHeaders Map.empty example_header)) example_rows) = 2"
  by code_simp

lemma ex_bucket: "map_option Duration (bucket (usageRecords (setHeaders Map.empty example_header) example_rows) ''eu-west-1_t2.micro'') = Some 7200000000000"
  by code_simp


text \<open>
  C2. Let the reader return \<open>header\<close> and then \<open>rows\<close>, and let the loop return. Then the
  line count is the number of rows that pass all four predicates, every such row yielded
  one usage record, each bucket is built from exactly the usage records of these rows
  with its key, and a row that fails a predicate leaves the state as it is, without error.
\<close>

theorem C2_qualifying_rows_only:
  assumes "records 0 lines = header # rows" and "readLoop 0 initial lines = Inr s"
  shows "lineCount s = int (length (filter (qualifies (setHeaders Map.empty header)) rows)) \<and>
     length (usageRecords (setHeaders Map.empty header) rows) =
       length (filter (qualifies (setHeaders Map.empty header)) rows) \<and>
     (\<forall>k. aggregate s k = bucket (usageRecords (setHeaders Map.empty header) rows) k) \<and>
     (\<forall>row \<in> set rows. \<not> qualifies (setHeaders Map.empty header) row \<longrightarrow>
        (\<forall>s0. processedHeaders s0 \<and> headers s0 = setHeaders Map.empty header \<longrightarrow>
           processRecord s0 row = Inr s0))"
proof -
  let ?H = "setHeaders Map.empty header"
  have skip: "processRecord s0 row = Inr s0"
    if "row \<in> set rows" "\<not> qualifies ?H row" "processedHeaders s0" "headers s0 = ?H" for row s0
    using that readLoop_state(3) [OF assms] by (simp add: processRecord_after_header)
  from readLoop_lineCount [OF assms] readLoop_state(2) [OF assms] readLoop_aggregate [OF assms] skip
  show ?thesis
    by blast
qed

theorem C2_qualifying_rows_only_witness:
  "records 0 example_lines = example_header # example_rows \<and>
   (\<exists>s. readLoop 0 initial example_lines = Inr s \<and>
        lineCount s = 2 \<and>
        map_option Duration (aggregate s ''eu-west-1_t2.micro'') = Some 7200000000000)"
proof -
  from ex_run obtain s where run: "readLoop 0 initial example_lines = Inr s"
    by (cases "readLoop 0 initial example_lines") simp_all
  from C2_qualifying_rows_only [OF ex_records run] ex_count ex_bucket ex_records run
  show ?thesis
    by simp
qed

section \<open>Bucket keys\<close>

lemma collide_records: "records 0 collide_lines = example_header # collide_rows"
  by (simp add: collide_lines_def example_header_def collide_rows_def usage_row_def)

lemma collide_run: "case readLoop 0 initial collide_lines of Inl p \<Rightarrow> False | Inr s \<Rightarrow> True"
  by code_simp

lemma collide_usage:
  "map (\<lambda>r. (ReportRow.Region r, ReportRow.InstanceType r, ReportRow.Duration r))
       (usageRecords (setHeaders Map.empty example_header) collide_rows) =
     [(''a_b'', ''c'', 3600000000000), (''a'', ''b_c'', 3600000000000)]"
  by code_simp

lemma collide_bucket:
  "bucket (usageRecords (setHeaders Map.empty example_header) collide_rows) ''a_b_c'' =
     Some \<lparr>Region = ''a_b'', InstanceType = ''c'', Duration = 7200000000000, EmissionGrams = Num 0\<rparr>"
  by code_simp

text \<open>
  C3. Each pair (region, instance type) should own one bucket, and the bucket's duration
  should be the sum over the qualifying records with that pair. The key of a bucket is the
  string \<^verbatim>\<open>region_instanceType\<close>, and the pairs \<^verbatim>\<open>(a_b, c)\<close> and \<^verbatim>\<open>(a, b_c)\<close> have the same key:
  two one-hour rows with these pairs end in one bucket, named \<^verbatim>\<open>(a_b, c)\<close>, of two hours.
\<close>

theorem C3_key_collision:
  "(''a_b'', ''c'') \<noteq> (''a'', ''b_c'') \<and>
   aggregateKey ''a_b'' ''c'' = ''a_b_c'' \<and>
   aggregateKey ''a'' ''b_c'' = ''a_b_c'' \<and>
   map (\<lambda>r. (ReportRow.Region r, ReportRow.InstanceType r, ReportRow.Duration r))
       (usageRecords (setHeaders Map.empty example_header) collide_rows) =
     [(''a_b'', ''c'', 3600000000000), (''a'', ''b_c'', 3600000000000)] \<and>
   (\<exists>s. readLoop 0 initial collide_lines = Inr s \<and>
        aggregate s ''a_b_c'' =
          Some \<lparr>Region = ''a_b'', InstanceType = ''c'', Duration = 7200000000000,
                EmissionGrams = Num 0\<rparr>)"
proof -
  from collide_run obtain s where run: "readLoop 0 initial collide_lines = Inr s"
    by (cases "readLoop 0 initial collide_lines") simp_all
  from readLoop_aggregate [OF collide_records run] collide_bucket
  have "aggregate s ''a_b_c'' =
          Some \<lparr>Region = ''a_b'', InstanceType = ''c'', Duration = 7200000000000,
                EmissionGrams = Num 0\<rparr>"
    by simp
  with run collide_usage show ?thesis
    by (auto simp: aggregateKey_def)
qed

end
